theory Spec2Isabelle
  imports Complex_Main
begin

section \<open>The retry executor of \<open>retry_async/api.py\<close>\<close>

text \<open>
  The module has two loops, \<open>__retry_internal_sync\<close> (lines 15-61) and
  \<open>__retry_internal_async\<close> (lines 64-110), and three entry points that bind the
  arguments of the operation and delegate to a loop: the decorator factory \<open>retry\<close>
  (lines 116-180), \<open>retry_call_sync\<close> (lines 183-223) and \<open>retry_call_async\<close>
  (lines 226-266).

  What the loops do beyond returning a value is written out:
  \<^item> every call the loop makes to its surroundings (the operation, the logger, the clock,
    the random number generator) is appended to a list of events, in program order;
  \<^item> a raised exception is the \<open>Inl\<close> of a sum, a returned value the \<open>Inr\<close>;
  \<^item> the loop is a \<^theory_text>\<open>partial_function\<close> into \<open>option\<close>: a run that never
    leaves the \<open>while\<close> has the value \<open>None\<close>.

  Numbers: \<open>tries\<close> is a Python \<open>int\<close> (unbounded, \<open>int\<close> here). Delays, backoff and
  jitter are numbers on which the code multiplies, adds and takes \<open>min\<close>. Python computes
  these exactly on ints and rounds each result to the nearest double on floats. The loop
  \<open>retry_loop\<close> computes exactly, on reals: it is the code on ints, and on floats as long
  as no result is rounded. The loop \<open>retry_loop_float\<close> is the same code with every
  product and sum rounded, for arguments that are floats.
\<close>

subsection \<open>Exceptions, events and the surroundings of the loop\<close>

text \<open>
  An exception object: the names of its class and of the classes that class inherits from
  (its method resolution order), and its message. \<open>except classes\<close> catches the object
  when one of the named classes is among them, as \<open>isinstance\<close> decides.
\<close>

datatype exn = Exn (exn_classes: "string list") (exn_message: string)

definition isinstance :: "exn \<Rightarrow> string list \<Rightarrow> bool" where
  "isinstance e classes = (set (exn_classes e) \<inter> set classes \<noteq> {})"

text \<open>
  The loops differ in one token: the synchronous one calls \<open>f()\<close> (line 43), the
  asynchronous one evaluates \<open>await f()\<close> (line 92).
\<close>

datatype mode = Sync | Async

text \<open>
  The events of a run. \<open>Call n\<close> and \<open>Await n\<close> are the invocation number \<open>n\<close> (counted
  from 0) of the operation, called or awaited; \<open>Warning e d\<close> is
  \<open>logger.warning(fmt, e, d)\<close>; \<open>Time_sleep d\<close> is a completed \<open>time.sleep(d)\<close>, the
  sleep of the standard library that holds the calling thread for \<open>d\<close> seconds;
  \<open>Uniform a b\<close> is a call \<open>random.uniform(a, b)\<close>.
\<close>

datatype event =
    Call nat
  | Await nat
  | Warning exn real
  | Time_sleep real
  | Uniform real real

text \<open>\<open>jitter\<close> is a number, or a tuple \<open>(min, max)\<close> (lines 55-58).\<close>

datatype jitter = Fixed real | Range real real

text \<open>
  The operation takes no argument (it is \<open>partial(f, *args, **kwargs)\<close>); each invocation
  either raises or returns. Its outcome may change from one invocation to the next, so it
  is a function of the number of invocations made before.
\<close>

type_synonym 'v operation = "nat \<Rightarrow> exn + 'v"

text \<open>
  A logger: what \<open>logger.warning\<close> does with the failure and the delay, \<open>None\<close> when it
  returns, \<open>Some x\<close> when it raises \<open>x\<close>. The parameter \<open>logger\<close> of the loop is an
  optional logger (\<open>if logger is not None\<close>, line 49).
\<close>

type_synonym logger = "exn \<Rightarrow> real \<Rightarrow> exn option"

fun is_invocation :: "event \<Rightarrow> bool" where
  "is_invocation (Call n) = True"
| "is_invocation (Await n) = True"
| "is_invocation ev = False"

fun is_uniform :: "event \<Rightarrow> bool" where
  "is_uniform (Uniform a b) = True"
| "is_uniform ev = False"

definition invocations :: "event list \<Rightarrow> nat" where
  "invocations tr = length (filter is_invocation tr)"

definition draws :: "event list \<Rightarrow> nat" where
  "draws tr = length (filter is_uniform tr)"

fun waits :: "event list \<Rightarrow> real list" where
  "waits [] = []"
| "waits (Time_sleep d # tr) = d # waits tr"
| "waits (ev # tr) = waits tr"

fun warnings :: "event list \<Rightarrow> (exn \<times> real) list" where
  "warnings [] = []"
| "warnings (Warning e d # tr) = (e, d) # warnings tr"
| "warnings (ev # tr) = warnings tr"

definition total_wait :: "event list \<Rightarrow> real" where
  "total_wait tr = sum_list (waits tr)"

text \<open>\<open>f()\<close> at line 43, \<open>await f()\<close> at line 92; \<open>n\<close> invocations were made before.\<close>

fun invoke :: "mode \<Rightarrow> nat \<Rightarrow> event" where
  "invoke Sync n = Call n"
| "invoke Async n = Await n"

text \<open>
  \<open>time.sleep(secs)\<close> (lines 52 and 101) raises \<open>ValueError\<close> for a negative argument
  and otherwise returns after \<open>secs\<close> seconds.
\<close>

definition sleep_ValueError :: exn where
  "sleep_ValueError =
     Exn [''ValueError'', ''Exception'', ''BaseException'', ''object'']
       ''sleep length must be non-negative''"

definition time_sleep :: "real \<Rightarrow> event list \<Rightarrow> exn + event list" where
  "time_sleep secs tr =
     (if secs < 0 then Inl sleep_ValueError else Inr (tr @ [Time_sleep secs]))"

text \<open>
  \<open>random.uniform(a, b)\<close> is \<open>a + (b - a) * random()\<close>; \<open>rnd i\<close> is the value of the
  \<open>i\<close>-th call of \<open>random()\<close>.
\<close>

definition uniform :: "(nat \<Rightarrow> real) \<Rightarrow> real \<Rightarrow> real \<Rightarrow> event list \<Rightarrow> real \<times> event list" where
  "uniform rnd a b tr = (a + (b - a) * rnd (draws tr), tr @ [Uniform a b])"

text \<open>Lines 49-50 (98-99): the logger is called only when it is not \<open>None\<close>.\<close>

definition logger_warning :: "logger option \<Rightarrow> exn \<Rightarrow> real \<Rightarrow> event list \<Rightarrow> exn option \<times> event list" where
  "logger_warning logger e d tr =
     (case logger of
        None \<Rightarrow> (None, tr)
      | Some lg \<Rightarrow> (lg e d, tr @ [Warning e d]))"

text \<open>
  Lines 53-61 (102-110): the delay for the next wait, computed after the wait.
  Python's \<open>min(x, y)\<close> is \<open>y\<close> when \<open>y < x\<close> and \<open>x\<close> otherwise. The product and the sum
  are exact here, as Python's are on ints; \<open>update_delay_float\<close> below rounds them, as
  Python does on floats.
\<close>

definition update_delay ::
  "real option \<Rightarrow> real \<Rightarrow> jitter \<Rightarrow> (nat \<Rightarrow> real) \<Rightarrow> real \<Rightarrow> event list \<Rightarrow> real \<times> event list" where
  "update_delay max_delay backoff jitter rnd d tr =
     (let d1 = d * backoff;
          (d2, tr2) = (case jitter of
                         Range a b \<Rightarrow> (case uniform rnd a b tr of (u, tr1) \<Rightarrow> (d1 + u, tr1))
                       | Fixed j \<Rightarrow> (d1 + j, tr));
          d3 = (case max_delay of None \<Rightarrow> d2 | Some md \<Rightarrow> min d2 md)
      in (d3, tr2))"

subsection \<open>The loop\<close>

text \<open>
  The local variables \<open>_tries\<close> and \<open>_delay\<close> (line 40) and the events so far. The loop
  returns them with its outcome, so that what a run did can be read from its result.
\<close>

record frame =
  cur_tries :: int
  cur_delay :: real
  events :: "event list"

text \<open>
  Lines 41-61 and 90-110. The outcome is \<open>Inl e\<close> when \<open>e\<close> propagates to the caller,
  \<open>Inr (Some v)\<close> for \<open>return f()\<close>, and \<open>Inr None\<close> when the \<open>while\<close> ends and the
  function returns Python's \<open>None\<close>. \<open>while _tries\<close> and \<open>if not _tries\<close> test the
  integer against 0. An exception raised inside the \<open>except\<close> block (by the logger or by
  \<open>time.sleep\<close>) is outside the \<open>try\<close> and propagates.
\<close>

partial_function (option) retry_loop ::
  "mode \<Rightarrow> 'v operation \<Rightarrow> (exn \<Rightarrow> bool) \<Rightarrow> real option \<Rightarrow> real \<Rightarrow> jitter \<Rightarrow> logger option \<Rightarrow>
   (nat \<Rightarrow> real) \<Rightarrow> frame \<Rightarrow> ((exn + 'v option) \<times> frame) option" where
  "retry_loop m f exceptions max_delay backoff jitter logger rnd st =
     (if cur_tries st \<noteq> 0 then
        (let st1 = st\<lparr>events := events st @ [invoke m (invocations (events st))]\<rparr> in
         case f (invocations (events st)) of
           Inr v \<Rightarrow> Some (Inr (Some v), st1)
         | Inl e \<Rightarrow>
             if \<not> exceptions e then Some (Inl e, st1)
             else
               (let st2 = st1\<lparr>cur_tries := cur_tries st1 - 1\<rparr> in
                if cur_tries st2 = 0 then Some (Inl e, st2)
                else
                  (case logger_warning logger e (cur_delay st2) (events st2) of
                     (Some x, tr3) \<Rightarrow> Some (Inl x, st2\<lparr>events := tr3\<rparr>)
                   | (None, tr3) \<Rightarrow>
                       (case time_sleep (cur_delay st2) tr3 of
                          Inl x \<Rightarrow> Some (Inl x, st2\<lparr>events := tr3\<rparr>)
                        | Inr tr4 \<Rightarrow>
                            (case update_delay max_delay backoff jitter rnd (cur_delay st2) tr4 of
                               (d, tr5) \<Rightarrow>
                                 retry_loop m f exceptions max_delay backoff jitter logger rnd
                                   (st2\<lparr>cur_delay := d, events := tr5\<rparr>))))))
      else Some (Inr None, st))"

text \<open>Line 40 (89): \<open>_tries, _delay = tries, delay\<close>, then the loop.\<close>

definition retry_internal ::
  "mode \<Rightarrow> 'v operation \<Rightarrow> (exn \<Rightarrow> bool) \<Rightarrow> int \<Rightarrow> real \<Rightarrow> real option \<Rightarrow> real \<Rightarrow> jitter \<Rightarrow>
   logger option \<Rightarrow> (nat \<Rightarrow> real) \<Rightarrow> event list \<Rightarrow> ((exn + 'v option) \<times> frame) option" where
  "retry_internal m f exceptions tries delay max_delay backoff jitter logger rnd tr =
     retry_loop m f exceptions max_delay backoff jitter logger rnd
       \<lparr>cur_tries = tries, cur_delay = delay, events = tr\<rparr>"

definition retry_internal_sync ::
  "'v operation \<Rightarrow> (exn \<Rightarrow> bool) \<Rightarrow> int \<Rightarrow> real \<Rightarrow> real option \<Rightarrow> real \<Rightarrow> jitter \<Rightarrow>
   logger option \<Rightarrow> (nat \<Rightarrow> real) \<Rightarrow> event list \<Rightarrow> ((exn + 'v option) \<times> frame) option" where
  "retry_internal_sync = retry_internal Sync"

definition retry_internal_async ::
  "'v operation \<Rightarrow> (exn \<Rightarrow> bool) \<Rightarrow> int \<Rightarrow> real \<Rightarrow> real option \<Rightarrow> real \<Rightarrow> jitter \<Rightarrow>
   logger option \<Rightarrow> (nat \<Rightarrow> real) \<Rightarrow> event list \<Rightarrow> ((exn + 'v option) \<times> frame) option" where
  "retry_internal_async = retry_internal Async"

subsection \<open>The entry points\<close>

text \<open>
  \<open>partial(f, *args, **kwargs)\<close>: the function with its arguments bound is the operation.
  (\<open>fargs if fargs else list()\<close> replaces missing or empty arguments by empty ones.)
\<close>

definition partial :: "('args \<Rightarrow> 'v operation) \<Rightarrow> 'args \<Rightarrow> 'v operation" where
  "partial f fargs = f fargs"

text \<open>Lines 183-223.\<close>

definition retry_call_sync ::
  "('args \<Rightarrow> 'v operation) \<Rightarrow> 'args \<Rightarrow> (exn \<Rightarrow> bool) \<Rightarrow> int \<Rightarrow> real \<Rightarrow> real option \<Rightarrow> real \<Rightarrow>
   jitter \<Rightarrow> logger option \<Rightarrow> (nat \<Rightarrow> real) \<Rightarrow> event list \<Rightarrow> ((exn + 'v option) \<times> frame) option" where
  "retry_call_sync f fargs exceptions tries delay max_delay backoff jitter logger =
     retry_internal_sync (partial f fargs) exceptions tries delay max_delay backoff jitter logger"

text \<open>Lines 226-266.\<close>

definition retry_call_async ::
  "('args \<Rightarrow> 'v operation) \<Rightarrow> 'args \<Rightarrow> (exn \<Rightarrow> bool) \<Rightarrow> int \<Rightarrow> real \<Rightarrow> real option \<Rightarrow> real \<Rightarrow>
   jitter \<Rightarrow> logger option \<Rightarrow> (nat \<Rightarrow> real) \<Rightarrow> event list \<Rightarrow> ((exn + 'v option) \<times> frame) option" where
  "retry_call_async f fargs exceptions tries delay max_delay backoff jitter logger =
     retry_internal_async (partial f fargs) exceptions tries delay max_delay backoff jitter logger"

text \<open>
  Lines 116-180. \<open>retry(...)\<close> has no statement that raises: it returns one of two
  decorators, each of which, applied to a function and called with arguments, runs the
  loop of its mode.
\<close>

definition retry ::
  "bool \<Rightarrow> (exn \<Rightarrow> bool) \<Rightarrow> int \<Rightarrow> real \<Rightarrow> real option \<Rightarrow> real \<Rightarrow> jitter \<Rightarrow> logger option \<Rightarrow>
   ('args \<Rightarrow> 'v operation) \<Rightarrow> 'args \<Rightarrow> (nat \<Rightarrow> real) \<Rightarrow> event list \<Rightarrow>
   ((exn + 'v option) \<times> frame) option" where
  "retry is_async exceptions tries delay max_delay backoff jitter logger =
     (if is_async
      then (\<lambda>f fargs. retry_internal_async (partial f fargs) exceptions tries delay max_delay
                        backoff jitter logger)
      else (\<lambda>f fargs. retry_internal_sync (partial f fargs) exceptions tries delay max_delay
                        backoff jitter logger))"

subsection \<open>The same lines on floats\<close>

text \<open>
  A Python float is an IEEE 754 double, and \<open>*\<close>, \<open>+\<close> and \<open>-\<close> on floats return the
  double nearest to the exact result, a tie going to the even significand. \<open>round64\<close>
  is that rounding on the reals: \<open>binade\<close> finds the exponent \<open>e\<close> for which
  \<open>x / 2 ^ e\<close> has a 53-bit integer part (the search is bounded, which covers every
  double), the exponent is not below that of the subnormal numbers, and the significand
  is rounded to an integer. Results of magnitude \<open>2 ^ 1024\<close> and above, which Python
  turns into \<open>inf\<close>, are not modelled.
\<close>

definition pow2 :: "int \<Rightarrow> real" where
  "pow2 e = (if 0 \<le> e then 2 ^ nat e else 1 / 2 ^ nat (- e))"

definition round_half_even :: "real \<Rightarrow> int" where
  "round_half_even x =
     (let n = \<lfloor>x\<rfloor>; r = x - of_int n
      in if r < 1 / 2 then n else if 1 / 2 < r then n + 1 else if even n then n else n + 1)"

fun binade :: "nat \<Rightarrow> real \<Rightarrow> int \<Rightarrow> int" where
  "binade 0 x e = e"
| "binade (Suc n) x e =
     (if 2 ^ 53 \<le> x then binade n (x / 2) (e + 1)
      else if x < 2 ^ 52 then binade n (x * 2) (e - 1)
      else e)"

definition round64 :: "real \<Rightarrow> real" where
  "round64 x =
     (if x = 0 then 0
      else (let e = max (binade 2200 \<bar>x\<bar> 0) (- 1074)
            in sgn x * of_int (round_half_even (\<bar>x\<bar> / pow2 e)) * pow2 e))"

text \<open>
  \<open>random.uniform(a, b)\<close> and lines 53-61 on floats: \<open>a + (b - a) * random()\<close>,
  \<open>_delay *= backoff\<close> and \<open>_delay += ...\<close> with each operation rounded. (An int among
  the operands is converted to the float of the same value first.) \<open>min\<close> compares and
  rounds nothing.
\<close>

definition uniform_float ::
  "(nat \<Rightarrow> real) \<Rightarrow> real \<Rightarrow> real \<Rightarrow> event list \<Rightarrow> real \<times> event list" where
  "uniform_float rnd a b tr =
     (round64 (a + round64 (round64 (b - a) * rnd (draws tr))), tr @ [Uniform a b])"

definition update_delay_float ::
  "real option \<Rightarrow> real \<Rightarrow> jitter \<Rightarrow> (nat \<Rightarrow> real) \<Rightarrow> real \<Rightarrow> event list \<Rightarrow> real \<times> event list" where
  "update_delay_float max_delay backoff jitter rnd d tr =
     (let d1 = round64 (d * backoff);
          (d2, tr2) = (case jitter of
                         Range a b \<Rightarrow>
                           (case uniform_float rnd a b tr of (u, tr1) \<Rightarrow> (round64 (d1 + u), tr1))
                       | Fixed j \<Rightarrow> (round64 (d1 + j), tr));
          d3 = (case max_delay of None \<Rightarrow> d2 | Some md \<Rightarrow> min d2 md)
      in (d3, tr2))"

text \<open>Lines 41-61 and 90-110 again, with the delay updated in floats.\<close>

partial_function (option) retry_loop_float ::
  "mode \<Rightarrow> 'v operation \<Rightarrow> (exn \<Rightarrow> bool) \<Rightarrow> real option \<Rightarrow> real \<Rightarrow> jitter \<Rightarrow> logger option \<Rightarrow>
   (nat \<Rightarrow> real) \<Rightarrow> frame \<Rightarrow> ((exn + 'v option) \<times> frame) option" where
  "retry_loop_float m f exceptions max_delay backoff jitter logger rnd st =
     (if cur_tries st \<noteq> 0 then
        (let st1 = st\<lparr>events := events st @ [invoke m (invocations (events st))]\<rparr> in
         case f (invocations (events st)) of
           Inr v \<Rightarrow> Some (Inr (Some v), st1)
         | Inl e \<Rightarrow>
             if \<not> exceptions e then Some (Inl e, st1)
             else
               (let st2 = st1\<lparr>cur_tries := cur_tries st1 - 1\<rparr> in
                if cur_tries st2 = 0 then Some (Inl e, st2)
                else
                  (case logger_warning logger e (cur_delay st2) (events st2) of
                     (Some x, tr3) \<Rightarrow> Some (Inl x, st2\<lparr>events := tr3\<rparr>)
                   | (None, tr3) \<Rightarrow>
                       (case time_sleep (cur_delay st2) tr3 of
                          Inl x \<Rightarrow> Some (Inl x, st2\<lparr>events := tr3\<rparr>)
                        | Inr tr4 \<Rightarrow>
                            (case update_delay_float max_delay backoff jitter rnd
                                    (cur_delay st2) tr4 of
                               (d, tr5) \<Rightarrow>
                                 retry_loop_float m f exceptions max_delay backoff jitter logger
                                   rnd (st2\<lparr>cur_delay := d, events := tr5\<rparr>))))))
      else Some (Inr None, st))"

definition retry_internal_float ::
  "mode \<Rightarrow> 'v operation \<Rightarrow> (exn \<Rightarrow> bool) \<Rightarrow> int \<Rightarrow> real \<Rightarrow> real option \<Rightarrow> real \<Rightarrow> jitter \<Rightarrow>
   logger option \<Rightarrow> (nat \<Rightarrow> real) \<Rightarrow> event list \<Rightarrow> ((exn + 'v option) \<times> frame) option" where
  "retry_internal_float m f exceptions tries delay max_delay backoff jitter logger rnd tr =
     retry_loop_float m f exceptions max_delay backoff jitter logger rnd
       \<lparr>cur_tries = tries, cur_delay = delay, events = tr\<rparr>"

subsection \<open>Auxiliary definitions for the statements\<close>

text \<open>
  One pass of lines 53-61 written as a value: the jitter term that is added, the events
  that drawing it leaves, and the clamp of lines 60-61.
\<close>

definition jitter_events :: "jitter \<Rightarrow> event list" where
  "jitter_events jitter = (case jitter of Range a b \<Rightarrow> [Uniform a b] | Fixed j \<Rightarrow> [])"

definition jitter_sample :: "jitter \<Rightarrow> (nat \<Rightarrow> real) \<Rightarrow> event list \<Rightarrow> real" where
  "jitter_sample jitter rnd tr =
     (case jitter of Range a b \<Rightarrow> a + (b - a) * rnd (draws tr) | Fixed j \<Rightarrow> j)"

definition clamp :: "real option \<Rightarrow> real \<Rightarrow> real" where
  "clamp max_delay d = (case max_delay of None \<Rightarrow> d | Some md \<Rightarrow> min d md)"

text \<open>The events of lines 49-50: one warning when there is a logger, nothing otherwise.\<close>

definition logged :: "logger option \<Rightarrow> exn \<Rightarrow> real \<Rightarrow> event list" where
  "logged logger e d = (case logger of None \<Rightarrow> [] | Some lg \<Rightarrow> [Warning e d])"

text \<open>
  The frame at the next evaluation of the \<open>while\<close> condition, after an iteration that
  caught \<open>e\<close>, had attempts left, logged without an error and slept.
\<close>

definition retried ::
  "mode \<Rightarrow> real option \<Rightarrow> real \<Rightarrow> jitter \<Rightarrow> logger option \<Rightarrow> (nat \<Rightarrow> real) \<Rightarrow> exn \<Rightarrow> frame \<Rightarrow> frame" where
  "retried m max_delay backoff jitter logger rnd e st =
     st\<lparr>cur_tries := cur_tries st - 1,
        cur_delay := clamp max_delay (cur_delay st * backoff
                    + jitter_sample jitter rnd
                        (events st @ invoke m (invocations (events st))
                           # logged logger e (cur_delay st) @ [Time_sleep (cur_delay st)])),
        events := events st @ invoke m (invocations (events st))
                 # logged logger e (cur_delay st) @ [Time_sleep (cur_delay st)]
                 @ jitter_events jitter\<rparr>"

text \<open>
  The waits of a run that fails \<open>n + 1\<close> times with a fixed jitter \<open>j\<close>, starting from the
  delay \<open>d\<close>: one wait after each failure but the last.
\<close>

fun schedule :: "real option \<Rightarrow> real \<Rightarrow> real \<Rightarrow> nat \<Rightarrow> real \<Rightarrow> real list" where
  "schedule max_delay backoff j 0 d = []"
| "schedule max_delay backoff j (Suc n) d =
     d # schedule max_delay backoff j n (clamp max_delay (d * backoff + j))"

text \<open>
  The code accepts any numbers. The policies of the specification have a non-negative
  delay, backoff and maximal delay, and a jitter that is a non-negative number or a range
  \<open>0 \<le> min \<le> max\<close>; with them no delay is negative and \<open>time.sleep\<close> does not raise.
\<close>

fun valid_jitter :: "jitter \<Rightarrow> bool" where
  "valid_jitter (Fixed j) = (0 \<le> j)"
| "valid_jitter (Range a b) = (0 \<le> a \<and> a \<le> b)"

text \<open>The mode of the loop that the decorator of \<open>retry(is_async=...)\<close> runs.\<close>

definition mode_of :: "bool \<Rightarrow> mode" where
  "mode_of is_async = (if is_async then Async else Sync)"

subsection \<open>The operations of the test suite\<close>

text \<open>
  \<open>tests/test_retry_async.py\<close>: the function of \<open>test_retry\<close> raises
  \<open>ZeroDivisionError\<close> at every call; the one of \<open>test_tries_minus1\<close> raises
  \<open>ValueError\<close> until call number \<open>target\<close>, which returns \<open>target\<close>. The exceptions are
  given with the classes of Python's hierarchy of built-in exceptions.
\<close>

definition ZeroDivisionError :: exn where
  "ZeroDivisionError =
     Exn [''ZeroDivisionError'', ''ArithmeticError'', ''Exception'', ''BaseException'',
          ''object'']
       ''division by zero''"

definition ValueError :: exn where
  "ValueError = Exn [''ValueError'', ''Exception'', ''BaseException'', ''object''] []"

definition always_fails :: "nat operation" where
  "always_fails n = Inl ZeroDivisionError"

definition succeeds_on :: "nat \<Rightarrow> nat operation" where
  "succeeds_on target n = (if Suc n = target then Inr target else Inl ValueError)"

text \<open>
  \<open>exceptions=Exception\<close>, the default, and \<open>exceptions=RuntimeError\<close>
  (\<open>test_retry_call\<close>): the instances of the class, which are the objects that have it
  among their classes.
\<close>

definition Exception :: "exn \<Rightarrow> bool" where
  "Exception e = isinstance e [''Exception'']"

definition RuntimeError :: "exn \<Rightarrow> bool" where
  "RuntimeError e = isinstance e [''RuntimeError'']"

definition no_random :: "nat \<Rightarrow> real" where
  "no_random i = 0"

text \<open>The float \<open>0.1\<close>: the double nearest to one tenth.\<close>

definition tenth :: real where
  "tenth = 3602879701896397 / 2 ^ 55"

text \<open>
  The same with an empty argument list, for the entry points; a logger that returns and
  one that raises.
\<close>

definition failing_fn :: "unit \<Rightarrow> nat operation" where
  "failing_fn fargs = always_fails"

definition quiet_logger :: logger where
  "quiet_logger e d = None"

definition log_OSError :: exn where
  "log_OSError =
     Exn [''OSError'', ''Exception'', ''BaseException'', ''object''] ''log file is gone''"

definition broken_logger :: logger where
  "broken_logger e d = Some log_OSError"

section \<open>Lemmas about the loop\<close>

subsection \<open>Exceptions and rounding\<close>

lemma Exception_Exn [simp]: "Exception (Exn cs msg) = (''Exception'' \<in> set cs)"
  by (simp add: Exception_def isinstance_def)

lemma RuntimeError_Exn [simp]: "RuntimeError (Exn cs msg) = (''RuntimeError'' \<in> set cs)"
  by (simp add: RuntimeError_def isinstance_def)

lemma binade_numeral:
  "binade (numeral k) x e =
     (if 2 ^ 53 \<le> x then binade (pred_numeral k) (x / 2) (e + 1)
      else if x < 2 ^ 52 then binade (pred_numeral k) (x * 2) (e - 1)
      else e)"
  by (simp add: numeral_eq_Suc)

text \<open>The double nearest to one tenth, and the products of the float run \<open>0.1 * 3 * 3\<close>.\<close>

lemma round64_tenth: "round64 (1 / 10) = tenth"
  by (simp add: round64_def binade_numeral round_half_even_def pow2_def tenth_def Let_def)

lemma round64_tenth_times_3: "round64 (tenth * 3) = 1351079888211149 / 2 ^ 52"
  by (simp add: round64_def binade_numeral round_half_even_def pow2_def tenth_def Let_def)

lemma round64_tenth_times_9: "round64 (tenth * 3 ^ 2) = 8106479329266893 / 2 ^ 53"
  by (simp add: round64_def binade_numeral round_half_even_def pow2_def tenth_def Let_def)

subsection \<open>Events\<close>

lemma invocations_Nil [simp]: "invocations [] = 0"
  by (simp add: invocations_def)

lemma invocations_append [simp]: "invocations (xs @ ys) = invocations xs + invocations ys"
  by (simp add: invocations_def)

lemma invocations_Cons [simp]:
  "invocations (ev # tr) = (if is_invocation ev then Suc (invocations tr) else invocations tr)"
  by (simp add: invocations_def)

lemma is_invocation_invoke [simp]: "is_invocation (invoke m n)"
  by (cases m) simp_all

lemma waits_append [simp]: "waits (xs @ ys) = waits xs @ waits ys"
  by (induction xs rule: waits.induct) simp_all

lemma waits_invoke [simp]: "waits (invoke m n # tr) = waits tr"
  by (cases m) simp_all

lemma warnings_invoke [simp]: "warnings (invoke m n # tr) = warnings tr"
  by (cases m) simp_all

lemma total_wait_append [simp]: "total_wait (xs @ ys) = total_wait xs + total_wait ys"
  by (simp add: total_wait_def)

subsection \<open>One iteration\<close>

lemma update_delay_eq:
  "update_delay max_delay backoff jitter rnd d tr =
     (clamp max_delay (d * backoff + jitter_sample jitter rnd tr), tr @ jitter_events jitter)"
  by (cases jitter)
     (simp_all add: update_delay_def Let_def uniform_def clamp_def jitter_sample_def
        jitter_events_def)

lemma jitter_sample_nonneg:
  assumes "valid_jitter jitter" and "\<And>i. 0 \<le> rnd i"
  shows "0 \<le> jitter_sample jitter rnd tr"
  using assms by (cases jitter) (simp_all add: jitter_sample_def)

lemma clamp_nonneg:
  assumes "0 \<le> d" and "\<And>md. max_delay = Some md \<Longrightarrow> 0 \<le> md"
  shows "0 \<le> clamp max_delay d"
  using assms by (cases max_delay) (simp_all add: clamp_def)

lemma retried_simps [simp]:
  "cur_tries (retried m max_delay backoff jitter logger rnd e st) = cur_tries st - 1"
  "invocations (events (retried m max_delay backoff jitter logger rnd e st))
     = Suc (invocations (events st))"
  "waits (events (retried m max_delay backoff jitter logger rnd e st))
     = waits (events st) @ [cur_delay st]"
  by (cases logger; cases jitter; simp add: retried_def logged_def jitter_events_def)+

lemma retried_delay_nonneg:
  assumes "0 \<le> cur_delay st" and "0 \<le> backoff" and "valid_jitter jitter"
    and "\<And>i. 0 \<le> rnd i" and "\<And>md. max_delay = Some md \<Longrightarrow> 0 \<le> md"
  shows "0 \<le> cur_delay (retried m max_delay backoff jitter logger rnd e st)"
  using assms by (simp add: retried_def clamp_nonneg jitter_sample_nonneg)

text \<open>The ways through the body of the loop.\<close>

lemma retry_loop_done:
  assumes "cur_tries st = 0"
  shows "retry_loop m f exceptions max_delay backoff jitter logger rnd st = Some (Inr None, st)"
  using assms by (subst retry_loop.simps) simp

lemma retry_loop_first_success:
  assumes "cur_tries st \<noteq> 0" and "f (invocations (events st)) = Inr v"
  shows "retry_loop m f exceptions max_delay backoff jitter logger rnd st
         = Some (Inr (Some v), st\<lparr>events := events st @ [invoke m (invocations (events st))]\<rparr>)"
  using assms by (subst retry_loop.simps) (simp add: Let_def)

lemma retry_loop_fatal:
  assumes "cur_tries st \<noteq> 0" and "f (invocations (events st)) = Inl e" and "\<not> exceptions e"
  shows "retry_loop m f exceptions max_delay backoff jitter logger rnd st
         = Some (Inl e, st\<lparr>events := events st @ [invoke m (invocations (events st))]\<rparr>)"
  using assms by (subst retry_loop.simps) (simp add: Let_def)

lemma retry_loop_last_try:
  assumes "cur_tries st = 1" and "f (invocations (events st)) = Inl e" and "exceptions e"
  shows "retry_loop m f exceptions max_delay backoff jitter logger rnd st
         = Some (Inl e, st\<lparr>cur_tries := 0,
                            events := events st @ [invoke m (invocations (events st))]\<rparr>)"
  using assms by (subst retry_loop.simps) (simp add: Let_def)

lemma retry_loop_logger_raises:
  assumes "cur_tries st \<noteq> 0" and "f (invocations (events st)) = Inl e" and "exceptions e"
    and "cur_tries st \<noteq> 1"
    and "logger = Some lg" and "lg e (cur_delay st) = Some x"
  shows "retry_loop m f exceptions max_delay backoff jitter logger rnd st
         = Some (Inl x, st\<lparr>cur_tries := cur_tries st - 1,
                            events := events st @ [invoke m (invocations (events st)),
                                                   Warning e (cur_delay st)]\<rparr>)"
  using assms by (subst retry_loop.simps) (simp add: Let_def logger_warning_def)

lemma retry_loop_sleep_raises:
  assumes "cur_tries st \<noteq> 0" and "f (invocations (events st)) = Inl e" and "exceptions e"
    and "cur_tries st \<noteq> 1"
    and "\<And>lg. logger = Some lg \<Longrightarrow> lg e (cur_delay st) = None"
    and "cur_delay st < 0"
  shows "retry_loop m f exceptions max_delay backoff jitter logger rnd st
         = Some (Inl sleep_ValueError,
                 st\<lparr>cur_tries := cur_tries st - 1,
                    events := events st @ invoke m (invocations (events st))
                                # logged logger e (cur_delay st)\<rparr>)"
  using assms
  by (subst retry_loop.simps)
     (cases logger; simp add: Let_def logger_warning_def time_sleep_def logged_def)

lemma retry_loop_retried:
  assumes "cur_tries st \<noteq> 0" and "f (invocations (events st)) = Inl e" and "exceptions e"
    and "cur_tries st \<noteq> 1"
    and "\<And>lg. logger = Some lg \<Longrightarrow> lg e (cur_delay st) = None"
    and "0 \<le> cur_delay st"
  shows "retry_loop m f exceptions max_delay backoff jitter logger rnd st
         = retry_loop m f exceptions max_delay backoff jitter logger rnd
             (retried m max_delay backoff jitter logger rnd e st)"
  using assms
  by (subst retry_loop.simps)
     (cases logger; simp add: Let_def logger_warning_def time_sleep_def update_delay_eq
        retried_def logged_def)

text \<open>The decorated function is the loop of its mode on the bound operation.\<close>

lemma retry_eq:
  "retry is_async exceptions tries delay max_delay backoff jitter logger f fargs
     = retry_internal (mode_of is_async) (f fargs) exceptions tries delay max_delay backoff
         jitter logger"
  by (simp add: retry_def retry_internal_sync_def retry_internal_async_def partial_def mode_of_def)

subsection \<open>Whole runs\<close>

text \<open>A run only adds events to those it starts with.\<close>

lemma retry_loop_extends:
  assumes run: "retry_loop m f exceptions max_delay backoff jitter logger rnd st = Some y"
  shows "\<exists>ys. events (snd y) = events st @ ys"
proof (rule retry_loop.raw_induct
    [where P = "\<lambda>m f exceptions max_delay backoff jitter logger rnd st y.
                  \<exists>ys. events (snd y) = events st @ ys", OF _ run], goal_cases)
  case (1 loop m f exceptions max_delay backoff jitter logger rnd st y)
  from "1"(2) show ?case
    by (cases logger)
      (auto simp add: Let_def logger_warning_def time_sleep_def update_delay_eq
        split: if_splits sum.splits option.splits prod.splits dest!: "1"(1))
qed

text \<open>
  An exception that a run propagates was raised by the operation, by the logger, or by
  \<open>time.sleep\<close>: the loops raise nothing of their own.
\<close>

lemma retry_loop_raises:
  assumes run: "retry_loop m f exceptions max_delay backoff jitter logger rnd st = Some y"
  shows "\<forall>x. fst y = Inl x \<longrightarrow>
           (\<exists>i. f i = Inl x) \<or> (\<exists>lg e d. logger = Some lg \<and> lg e d = Some x)
           \<or> x = sleep_ValueError"
proof (rule retry_loop.raw_induct
    [where P = "\<lambda>m f exceptions max_delay backoff jitter logger rnd st y.
                  \<forall>x. fst y = Inl x \<longrightarrow>
                    (\<exists>i. f i = Inl x) \<or> (\<exists>lg e d. logger = Some lg \<and> lg e d = Some x)
                    \<or> x = sleep_ValueError", OF _ run], goal_cases)
  case (1 loop m f exceptions max_delay backoff jitter logger rnd st y)
  from "1"(2) show ?case
    by (cases logger)
      (auto simp add: Let_def logger_warning_def time_sleep_def update_delay_eq
        split: if_splits sum.splits option.splits prod.splits dest!: "1"(1))
qed

lemma exhaust_general:
  assumes fail: "\<And>i. \<exists>e. f i = Inl e \<and> exceptions e"
    and quiet: "\<And>lg e d. logger = Some lg \<Longrightarrow> lg e d = None"
    and bo: "0 \<le> backoff" and jit: "valid_jitter jitter" and rnd: "\<And>i. 0 \<le> rnd i"
    and md: "\<And>md. max_delay = Some md \<Longrightarrow> 0 \<le> md"
  shows "cur_tries st = int (Suc n) \<Longrightarrow> 0 \<le> cur_delay st \<Longrightarrow>
     \<exists>e st'. retry_loop m f exceptions max_delay backoff jitter logger rnd st = Some (Inl e, st')
        \<and> f (invocations (events st) + n) = Inl e
        \<and> invocations (events st') = invocations (events st) + Suc n
        \<and> cur_tries st' = 0"
proof (induction n arbitrary: st)
  case 0
  from fail obtain e where e: "f (invocations (events st)) = Inl e" "exceptions e" by blast
  from 0 e show ?case
    by (simp add: retry_loop_last_try)
next
  case (Suc n)
  from fail obtain e where e: "f (invocations (events st)) = Inl e" "exceptions e" by blast
  let ?st = "retried m max_delay backoff jitter logger rnd e st"
  have step: "retry_loop m f exceptions max_delay backoff jitter logger rnd st
              = retry_loop m f exceptions max_delay backoff jitter logger rnd ?st"
    using Suc.prems e quiet by (intro retry_loop_retried) simp_all
  have "cur_tries ?st = int (Suc n)" using Suc.prems by simp
  moreover have "0 \<le> cur_delay ?st"
    using Suc.prems bo jit rnd md by (intro retried_delay_nonneg)
  ultimately show ?case
    using Suc.IH [of ?st] step by simp
qed

lemma exhaust_fixed_waits:
  assumes fail: "\<And>i. \<exists>e. f i = Inl e \<and> exceptions e"
    and quiet: "\<And>lg e d. logger = Some lg \<Longrightarrow> lg e d = None"
    and bo: "0 \<le> backoff" and j: "0 \<le> j"
    and md: "\<And>md. max_delay = Some md \<Longrightarrow> 0 \<le> md"
  shows "cur_tries st = int (Suc n) \<Longrightarrow> 0 \<le> cur_delay st \<Longrightarrow>
     \<exists>e st'. retry_loop m f exceptions max_delay backoff (Fixed j) logger rnd st
                = Some (Inl e, st')
        \<and> waits (events st') = waits (events st) @ schedule max_delay backoff j n (cur_delay st)"
proof (induction n arbitrary: st)
  case 0
  from fail obtain e where e: "f (invocations (events st)) = Inl e" "exceptions e" by blast
  from 0 e show ?case
    by (simp add: retry_loop_last_try)
next
  case (Suc n)
  from fail obtain e where e: "f (invocations (events st)) = Inl e" "exceptions e" by blast
  let ?st = "retried m max_delay backoff (Fixed j) logger rnd e st"
  have step: "retry_loop m f exceptions max_delay backoff (Fixed j) logger rnd st
              = retry_loop m f exceptions max_delay backoff (Fixed j) logger rnd ?st"
    using Suc.prems e quiet by (intro retry_loop_retried) simp_all
  have d: "cur_delay ?st = clamp max_delay (cur_delay st * backoff + j)"
    by (simp add: retried_def jitter_sample_def)
  have "cur_tries ?st = int (Suc n)" using Suc.prems by simp
  moreover have "0 \<le> cur_delay ?st"
    unfolding d using Suc.prems bo j md by (intro clamp_nonneg) simp_all
  ultimately show ?case
    using Suc.IH [of ?st] step d by simp
qed

lemma eventual_success:
  assumes quiet: "\<And>lg e d. logger = Some lg \<Longrightarrow> lg e d = None"
    and bo: "0 \<le> backoff" and jit: "valid_jitter jitter" and rnd: "\<And>i. 0 \<le> rnd i"
    and md: "\<And>md. max_delay = Some md \<Longrightarrow> 0 \<le> md"
  shows "cur_tries st < 0 \<Longrightarrow> 0 \<le> cur_delay st \<Longrightarrow>
     (\<And>i. i < k \<Longrightarrow> \<exists>e. f (invocations (events st) + i) = Inl e \<and> exceptions e) \<Longrightarrow>
     f (invocations (events st) + k) = Inr v \<Longrightarrow>
     \<exists>st'. retry_loop m f exceptions max_delay backoff jitter logger rnd st = Some (Inr (Some v), st')
        \<and> invocations (events st') = invocations (events st) + Suc k"
proof (induction k arbitrary: st)
  case 0
  then show ?case by (simp add: retry_loop_first_success)
next
  case (Suc k)
  from Suc.prems(3) [of 0] obtain e
    where e: "f (invocations (events st)) = Inl e" "exceptions e" by auto
  let ?st = "retried m max_delay backoff jitter logger rnd e st"
  have step: "retry_loop m f exceptions max_delay backoff jitter logger rnd st
              = retry_loop m f exceptions max_delay backoff jitter logger rnd ?st"
    using Suc.prems e quiet by (intro retry_loop_retried) simp_all
  have "cur_tries ?st < 0" using Suc.prems by simp
  moreover have "0 \<le> cur_delay ?st"
    using Suc.prems bo jit rnd md by (intro retried_delay_nonneg)
  moreover have "\<exists>e. f (invocations (events ?st) + i) = Inl e \<and> exceptions e" if "i < k" for i
    using Suc.prems(3) [of "Suc i"] that by simp
  moreover have "f (invocations (events ?st) + k) = Inr v"
    using Suc.prems(4) by simp
  ultimately show ?case
    using Suc.IH [of ?st] step by simp
qed

subsection \<open>Schedules\<close>

lemma schedule_geometric:
  "sum_list (schedule None backoff 0 n d) = (\<Sum>i<n. d * backoff ^ i)"
proof (induction n arbitrary: d)
  case 0
  show ?case by simp
next
  case (Suc n)
  have "(\<Sum>i<Suc n. d * backoff ^ i) = d + (\<Sum>i<n. d * backoff * backoff ^ i)"
    by (simp only: sum.lessThan_Suc_shift) (simp add: mult.assoc)
  with Suc [of "d * backoff"] show ?case
    by (simp add: clamp_def)
qed

lemma schedule_capped:
  assumes "0 \<le> d" and "1 \<le> backoff"
  shows "schedule (Some d) backoff 0 n d = replicate n d"
proof (induction n)
  case 0
  show ?case by simp
next
  case (Suc n)
  have "d * 1 \<le> d * backoff"
    using assms by (intro mult_left_mono) simp_all
  then have "clamp (Some d) (d * backoff + 0) = d"
    by (simp add: clamp_def)
  with Suc show ?case
    by simp
qed

section \<open>The properties of the specification\<close>

text \<open>
  The statements below are about \<open>retry_internal m\<close> for an arbitrary mode \<open>m\<close>:
  \<open>retry_internal Sync\<close> is \<open>__retry_internal_sync\<close> and \<open>retry_internal Async\<close> is
  \<open>__retry_internal_async\<close>. A run starts from the empty list of events unless said
  otherwise. A logger, when there is one, is assumed to return (as \<open>logging.Logger\<close>
  does) wherever the statement is about the failures of the operation.
\<close>

text \<open>
  C1. With \<open>tries = N \<ge> 1\<close>, a policy of non-negative numbers and an operation that
  raises a caught exception at every invocation, the loop terminates, has invoked the
  operation exactly \<open>N\<close> times, and propagates the very exception that invocation number
  \<open>N\<close> raised (index \<open>N - 1\<close>), not another one built from it.
\<close>

theorem exhaustion_propagates_last_failure:
  assumes N: "1 \<le> N"
    and fail: "\<And>i. \<exists>e. f i = Inl e \<and> exceptions e"
    and quiet: "\<And>lg e d. logger = Some lg \<Longrightarrow> lg e d = None"
    and d: "0 \<le> delay" and bo: "0 \<le> backoff" and jit: "valid_jitter jitter"
    and rnd: "\<And>i. 0 \<le> rnd i"
    and md: "\<And>md. max_delay = Some md \<Longrightarrow> 0 \<le> md"
  shows "\<exists>e st'. retry_internal m f exceptions (int N) delay max_delay backoff jitter logger rnd []
                    = Some (Inl e, st')
           \<and> f (N - 1) = Inl e \<and> invocations (events st') = N"
proof -
  from N obtain n where n: "N = Suc n" by (cases N) auto
  let ?st = "\<lparr>cur_tries = int N, cur_delay = delay, events = []\<rparr>"
  have "\<exists>e st'. retry_loop m f exceptions max_delay backoff jitter logger rnd ?st
                    = Some (Inl e, st')
           \<and> f (invocations (events ?st) + n) = Inl e
           \<and> invocations (events st') = invocations (events ?st) + Suc n
           \<and> cur_tries st' = 0"
    using fail quiet bo jit rnd md n d
    by (intro exhaust_general [where st = "?st" and n = n]) simp_all
  then show ?thesis
    by (auto simp add: retry_internal_def n)
qed

theorem exhaustion_propagates_last_failure_witness:
  "\<exists>st'. retry_internal Sync always_fails Exception 3 1 (Some 4) 2 (Range 0 1) None no_random []
            = Some (Inl ZeroDivisionError, st')
         \<and> invocations (events st') = 3"
  using exhaustion_propagates_last_failure
    [where N = 3 and f = always_fails and exceptions = Exception and logger = None
       and delay = 1 and backoff = 2 and jitter = "Range 0 1" and rnd = no_random
       and max_delay = "Some 4" and m = Sync]
  by (simp add: always_fails_def ZeroDivisionError_def no_random_def)

text \<open>
  C3. When the first invocation raises an exception that \<open>exceptions\<close> does not catch
  (and \<open>tries\<close> is not 0, so that there is a first invocation), the loop propagates that
  exception at once: the operation has been invoked once, \<open>_tries\<close> and \<open>_delay\<close> are what
  they were, the logger has not been called and nothing has been waited.
\<close>

theorem fatal_failure_propagates_at_once:
  assumes "tries \<noteq> 0" and "f 0 = Inl e" and "\<not> exceptions e"
  shows "retry_internal m f exceptions tries delay max_delay backoff jitter logger rnd []
           = Some (Inl e, \<lparr>cur_tries = tries, cur_delay = delay, events = [invoke m 0]\<rparr>)
         \<and> invocations [invoke m 0] = 1 \<and> warnings [invoke m 0] = []
         \<and> total_wait [invoke m 0] = 0"
  using assms by (simp add: retry_internal_def retry_loop_fatal total_wait_def)

theorem fatal_failure_propagates_at_once_witness:
  "retry_internal Async always_fails RuntimeError 5 1 None 2 (Fixed 0) (Some quiet_logger)
     no_random []
   = Some (Inl ZeroDivisionError, \<lparr>cur_tries = 5, cur_delay = 1, events = [Await 0]\<rparr>)"
  using fatal_failure_propagates_at_once
    [where tries = 5 and f = always_fails and e = ZeroDivisionError
       and exceptions = RuntimeError and m = Async and delay = 1 and max_delay = None
       and backoff = 2 and jitter = "Fixed 0" and logger = "Some quiet_logger"
       and rnd = no_random]
  by (simp add: always_fails_def ZeroDivisionError_def)

text \<open>
  C4. With a negative \<open>tries\<close> (the unlimited budget, \<open>-1\<close> by default), a policy of
  non-negative numbers and an operation that raises caught exceptions at its first \<open>k - 1\<close>
  invocations and returns \<open>v\<close> at invocation number \<open>k\<close>, the loop terminates, returns \<open>v\<close>
  and has invoked the operation exactly \<open>k\<close> times.
\<close>

theorem unbounded_retries_until_success:
  assumes tries: "tries < 0" and k: "1 \<le> k"
    and fail: "\<And>i. i < k - 1 \<Longrightarrow> \<exists>e. f i = Inl e \<and> exceptions e"
    and ok: "f (k - 1) = Inr v"
    and quiet: "\<And>lg e d. logger = Some lg \<Longrightarrow> lg e d = None"
    and d: "0 \<le> delay" and bo: "0 \<le> backoff" and jit: "valid_jitter jitter"
    and rnd: "\<And>i. 0 \<le> rnd i"
    and md: "\<And>md. max_delay = Some md \<Longrightarrow> 0 \<le> md"
  shows "\<exists>st'. retry_internal m f exceptions tries delay max_delay backoff jitter logger rnd []
                  = Some (Inr (Some v), st')
           \<and> invocations (events st') = k"
proof -
  from k obtain n where n: "k = Suc n" by (cases k) auto
  let ?st = "\<lparr>cur_tries = tries, cur_delay = delay, events = []\<rparr>"
  have "\<exists>e. f (invocations (events ?st) + i) = Inl e \<and> exceptions e" if "i < n" for i
    using fail [of i] that n by simp
  moreover have "f (invocations (events ?st) + n) = Inr v"
    using ok n by simp
  ultimately have "\<exists>st'. retry_loop m f exceptions max_delay backoff jitter logger rnd ?st
                    = Some (Inr (Some v), st')
           \<and> invocations (events st') = invocations (events ?st) + Suc n"
    using quiet bo jit rnd md tries d
    by (intro eventual_success [where st = "?st" and k = n]) simp_all
  then show ?thesis
    by (auto simp add: retry_internal_def n)
qed

theorem unbounded_retries_until_success_witness:
  "\<exists>st'. retry_internal Async (succeeds_on 10) Exception (- 1) 0 None 1 (Fixed 0)
            (Some quiet_logger) no_random []
            = Some (Inr (Some 10), st')
         \<and> invocations (events st') = 10"
  using unbounded_retries_until_success
    [where tries = "- 1" and k = 10 and f = "succeeds_on 10" and exceptions = Exception
       and v = 10 and logger = "Some quiet_logger" and delay = 0 and backoff = 1
       and jitter = "Fixed 0" and rnd = no_random and max_delay = None and m = Async]
  by (simp add: succeeds_on_def ValueError_def quiet_logger_def no_random_def)

text \<open>
  C5. At any iteration of the loop (any frame \<open>st\<close>) at which the operation raises a
  caught exception \<open>e\<close> and attempts remain after the decrement, a logger that is set is
  called once, with \<open>e\<close> and the delay of the frame, which is the delay about to be waited
  and not yet updated. If the call raises \<open>x\<close>, the loop ends there and propagates \<open>x\<close>:
  no wait and no further invocation follow the warning. If it returns, the wait of that
  same delay follows (or the \<open>ValueError\<close> of \<open>time.sleep\<close> for a negative delay), then
  the update of the delay, and the loop goes on from the updated frame.
\<close>

theorem observer_called_once_with_current_delay:
  assumes "cur_tries st \<noteq> 0" and "f (invocations (events st)) = Inl e" and "exceptions e"
    and "cur_tries st - 1 \<noteq> 0" and "logger = Some lg"
  shows "(lg e (cur_delay st) = Some x \<longrightarrow>
            retry_loop m f exceptions max_delay backoff jitter logger rnd st
            = Some (Inl x, st\<lparr>cur_tries := cur_tries st - 1,
                               events := events st @ [invoke m (invocations (events st)),
                                                      Warning e (cur_delay st)]\<rparr>))
       \<and> (lg e (cur_delay st) = None \<and> cur_delay st < 0 \<longrightarrow>
            retry_loop m f exceptions max_delay backoff jitter logger rnd st
            = Some (Inl sleep_ValueError,
                    st\<lparr>cur_tries := cur_tries st - 1,
                       events := events st @ [invoke m (invocations (events st)),
                                              Warning e (cur_delay st)]\<rparr>))
       \<and> (lg e (cur_delay st) = None \<and> 0 \<le> cur_delay st \<longrightarrow>
            retry_loop m f exceptions max_delay backoff jitter logger rnd st
            = retry_loop m f exceptions max_delay backoff jitter logger rnd
                (st\<lparr>cur_tries := cur_tries st - 1,
                    cur_delay := fst (update_delay max_delay backoff jitter rnd (cur_delay st)
                                   (events st @ [invoke m (invocations (events st)),
                                                 Warning e (cur_delay st),
                                                 Time_sleep (cur_delay st)])),
                    events := snd (update_delay max_delay backoff jitter rnd (cur_delay st)
                                   (events st @ [invoke m (invocations (events st)),
                                                 Warning e (cur_delay st),
                                                 Time_sleep (cur_delay st)]))\<rparr>))"
proof (intro conjI impI)
  assume "lg e (cur_delay st) = Some x"
  with assms show "retry_loop m f exceptions max_delay backoff jitter logger rnd st
            = Some (Inl x, st\<lparr>cur_tries := cur_tries st - 1,
                               events := events st @ [invoke m (invocations (events st)),
                                                      Warning e (cur_delay st)]\<rparr>)"
    by (simp add: retry_loop_logger_raises)
next
  assume "lg e (cur_delay st) = None \<and> cur_delay st < 0"
  with assms show "retry_loop m f exceptions max_delay backoff jitter logger rnd st
            = Some (Inl sleep_ValueError,
                    st\<lparr>cur_tries := cur_tries st - 1,
                       events := events st @ [invoke m (invocations (events st)),
                                              Warning e (cur_delay st)]\<rparr>)"
    by (subst retry_loop_sleep_raises [where e = e]) (simp_all add: logged_def)
next
  assume "lg e (cur_delay st) = None \<and> 0 \<le> cur_delay st"
  with assms show "retry_loop m f exceptions max_delay backoff jitter logger rnd st
            = retry_loop m f exceptions max_delay backoff jitter logger rnd
                (st\<lparr>cur_tries := cur_tries st - 1,
                    cur_delay := fst (update_delay max_delay backoff jitter rnd (cur_delay st)
                                   (events st @ [invoke m (invocations (events st)),
                                                 Warning e (cur_delay st),
                                                 Time_sleep (cur_delay st)])),
                    events := snd (update_delay max_delay backoff jitter rnd (cur_delay st)
                                   (events st @ [invoke m (invocations (events st)),
                                                 Warning e (cur_delay st),
                                                 Time_sleep (cur_delay st)]))\<rparr>)"
    by (subst retry_loop_retried [where e = e])
       (simp_all add: retried_def logged_def update_delay_eq)
qed

theorem observer_called_once_with_current_delay_witness:
  "retry_loop Sync always_fails Exception None 2 (Fixed 0) (Some broken_logger) no_random
     \<lparr>cur_tries = 3, cur_delay = 1, events = []\<rparr>
   = Some (Inl log_OSError,
           \<lparr>cur_tries = 2, cur_delay = 1, events = [Call 0, Warning ZeroDivisionError 1]\<rparr>)
   \<and> retry_loop Sync always_fails Exception None 2 (Fixed 0) (Some quiet_logger) no_random
     \<lparr>cur_tries = 3, cur_delay = - 1, events = []\<rparr>
   = Some (Inl sleep_ValueError,
           \<lparr>cur_tries = 2, cur_delay = - 1, events = [Call 0, Warning ZeroDivisionError (- 1)]\<rparr>)
   \<and> retry_loop Sync always_fails Exception None 2 (Fixed 0) (Some quiet_logger) no_random
     \<lparr>cur_tries = 3, cur_delay = 1, events = []\<rparr>
   = retry_loop Sync always_fails Exception None 2 (Fixed 0) (Some quiet_logger) no_random
     \<lparr>cur_tries = 2, cur_delay = 2,
        events = [Call 0, Warning ZeroDivisionError 1, Time_sleep 1]\<rparr>"
  using observer_called_once_with_current_delay
    [where st = "\<lparr>cur_tries = 3, cur_delay = 1, events = []\<rparr>" and f = always_fails
       and e = ZeroDivisionError and exceptions = Exception and logger = "Some broken_logger"
       and lg = broken_logger and x = log_OSError and m = Sync
       and max_delay = None and backoff = 2 and jitter = "Fixed 0" and rnd = no_random]
    observer_called_once_with_current_delay
    [where st = "\<lparr>cur_tries = 3, cur_delay = - 1, events = []\<rparr>" and f = always_fails
       and e = ZeroDivisionError and exceptions = Exception and logger = "Some quiet_logger"
       and lg = quiet_logger and m = Sync
       and max_delay = None and backoff = 2 and jitter = "Fixed 0" and rnd = no_random]
    observer_called_once_with_current_delay
    [where st = "\<lparr>cur_tries = 3, cur_delay = 1, events = []\<rparr>" and f = always_fails
       and e = ZeroDivisionError and exceptions = Exception and logger = "Some quiet_logger"
       and lg = quiet_logger and m = Sync
       and max_delay = None and backoff = 2 and jitter = "Fixed 0" and rnd = no_random]
  by (simp add: always_fails_def ZeroDivisionError_def broken_logger_def quiet_logger_def
      update_delay_def)

text \<open>
  C9. With \<open>tries = 0\<close> the loop body is never entered: whatever the operation and the
  other parameters, both loops return \<open>None\<close>, raise nothing, and leave the events as they
  were (no invocation, no wait, no warning).
\<close>

theorem zero_tries_returns_None:
  "retry_internal_sync f exceptions 0 delay max_delay backoff jitter logger rnd tr
     = Some (Inr None, \<lparr>cur_tries = 0, cur_delay = delay, events = tr\<rparr>)
   \<and> retry_internal_async f exceptions 0 delay max_delay backoff jitter logger rnd tr
     = Some (Inr None, \<lparr>cur_tries = 0, cur_delay = delay, events = tr\<rparr>)"
  by (simp add: retry_internal_sync_def retry_internal_async_def retry_internal_def
      retry_loop_done)

text \<open>
  C6, as the code has it. The delay is computed by repeated multiplication
  (\<open>_delay *= backoff\<close>, line 53), exactly on ints and with a rounding at each step on
  floats. Without jitter and without \<open>max_delay\<close>, with \<open>tries = N \<ge> 1\<close>, a non-negative
  int delay \<open>a\<close> and int backoff \<open>b\<close>, and an operation that raises a caught exception at
  every invocation, the run terminates and the waits add up to the sum of \<open>a * b ^ i\<close> for
  \<open>i < N - 1\<close>. With \<open>delay = 1\<close>, \<open>backoff = 2\<close>, \<open>tries = 5\<close> that is 15.
\<close>

theorem total_wait_is_geometric_sum:
  fixes a b :: int
  assumes N: "1 \<le> N"
    and fail: "\<And>i. \<exists>e. f i = Inl e \<and> exceptions e"
    and quiet: "\<And>lg e d. logger = Some lg \<Longrightarrow> lg e d = None"
    and a: "0 \<le> a" and b: "0 \<le> b"
  shows "\<exists>e st'. retry_internal m f exceptions (int N) (of_int a) None (of_int b) (Fixed 0)
                    logger rnd []
                    = Some (Inl e, st')
           \<and> total_wait (events st') = of_int (\<Sum>i<N - 1. a * b ^ i)"
proof -
  from N obtain n where n: "N = Suc n" by (cases N) auto
  let ?st = "\<lparr>cur_tries = int N, cur_delay = of_int a, events = []\<rparr>"
  have "\<exists>e st'. retry_loop m f exceptions None (of_int b) (Fixed 0) logger rnd ?st
                    = Some (Inl e, st')
           \<and> waits (events st')
               = waits (events ?st) @ schedule None (of_int b) 0 n (cur_delay ?st)"
    using fail quiet a b n
    by (intro exhaust_fixed_waits [where st = "?st" and n = n]) simp_all
  then show ?thesis
    by (auto simp add: retry_internal_def n total_wait_def schedule_geometric)
qed

theorem total_wait_is_geometric_sum_witness:
  "\<exists>e st'. retry_internal Async always_fails Exception 5 1 None 2 (Fixed 0)
              (Some quiet_logger) no_random []
              = Some (Inl e, st')
           \<and> total_wait (events st') = 15"
  using total_wait_is_geometric_sum
    [where N = 5 and f = always_fails and exceptions = Exception
       and logger = "Some quiet_logger" and a = 1 and b = 2 and m = Async
       and rnd = no_random]
  by (simp add: always_fails_def ZeroDivisionError_def quiet_logger_def lessThan_Suc
      eval_nat_numeral)

text \<open>
  The run on floats with \<open>tries = 4\<close>, \<open>delay = 0.1\<close> and \<open>backoff = 3\<close>: the waits are the
  doubles \<open>0.1\<close>, \<open>0.30000000000000004\<close> and \<open>0.9000000000000001\<close>. Their sum is not
  that of \<open>0.1 * 3 ^ i\<close>; the third wait, the rounded \<open>0.1 * 3\<close> times 3, is not even the
  float \<open>0.1 * 3 ** 2\<close>, which is \<open>0.9\<close>.
\<close>

theorem total_wait_float_counterexample:
  "retry_internal_float Sync always_fails Exception 4 tenth None 3 (Fixed 0) None no_random []
     = Some (Inl ZeroDivisionError,
             \<lparr>cur_tries = 0, cur_delay = 3039929748475085 / 2 ^ 50,
                events = [Call 0, Time_sleep tenth, Call 1,
                          Time_sleep (1351079888211149 / 2 ^ 52), Call 2,
                          Time_sleep (4053239664633447 / 2 ^ 52), Call 3]\<rparr>)
   \<and> total_wait [Call 0, Time_sleep tenth, Call 1,
                 Time_sleep (1351079888211149 / 2 ^ 52), Call 2,
                 Time_sleep (4053239664633447 / 2 ^ 52), Call 3]
       \<noteq> tenth * 3 ^ 0 + tenth * 3 ^ 1 + tenth * 3 ^ 2
   \<and> 4053239664633447 / 2 ^ 52 \<noteq> round64 (tenth * 3 ^ 2)"
  by (simp add: retry_internal_float_def retry_loop_float.simps Let_def always_fails_def
      ZeroDivisionError_def logger_warning_def time_sleep_def update_delay_float_def
      round64_def binade_numeral round_half_even_def pow2_def tenth_def total_wait_def)

text \<open>
  C7, as the code has it. The clamp of lines 60-61 is a ceiling only: \<open>min\<close> keeps a
  delay that the backoff has made smaller. With \<open>max_delay\<close> equal to the initial delay,
  no jitter and \<open>tries = N \<ge> 1\<close>, the waits add up to \<open>delay * (N - 1)\<close> when the backoff
  is at least 1 (and the delay non-negative); they do not for a backoff below 1.
\<close>

theorem total_wait_capped_at_initial_delay:
  assumes N: "1 \<le> N"
    and fail: "\<And>i. \<exists>e. f i = Inl e \<and> exceptions e"
    and quiet: "\<And>lg e d. logger = Some lg \<Longrightarrow> lg e d = None"
    and d: "0 \<le> delay" and bo: "1 \<le> backoff"
  shows "\<exists>e st'. retry_internal m f exceptions (int N) delay (Some delay) backoff (Fixed 0)
                    logger rnd []
                    = Some (Inl e, st')
           \<and> total_wait (events st') = delay * real (N - 1)"
proof -
  from N obtain n where n: "N = Suc n" by (cases N) auto
  let ?st = "\<lparr>cur_tries = int N, cur_delay = delay, events = []\<rparr>"
  have "\<exists>e st'. retry_loop m f exceptions (Some delay) backoff (Fixed 0) logger rnd ?st
                    = Some (Inl e, st')
           \<and> waits (events st')
               = waits (events ?st) @ schedule (Some delay) backoff 0 n (cur_delay ?st)"
    using fail quiet bo n d
    by (intro exhaust_fixed_waits [where st = "?st" and n = n]) simp_all
  then show ?thesis
    using d bo
    by (auto simp add: retry_internal_def n total_wait_def schedule_capped sum_list_replicate)
qed

theorem total_wait_capped_at_initial_delay_witness:
  "\<exists>e st'. retry_internal Async always_fails Exception 5 1 (Some 1) 2 (Fixed 0)
              (Some quiet_logger) no_random []
              = Some (Inl e, st')
           \<and> total_wait (events st') = 4"
  using total_wait_capped_at_initial_delay
    [where N = 5 and f = always_fails and exceptions = Exception
       and logger = "Some quiet_logger" and delay = 1 and backoff = 2 and m = Async
       and rnd = no_random]
  by (simp add: always_fails_def ZeroDivisionError_def quiet_logger_def)

text \<open>
  The run with \<open>tries = 3\<close>, \<open>delay = max_delay = 1\<close> and \<open>backoff = 1/2\<close>: the waits are
  1 and 1/2, not 1 and 1.
\<close>

theorem total_wait_capped_counterexample:
  "retry_internal Sync always_fails Exception 3 1 (Some 1) (1 / 2) (Fixed 0) None no_random []
     = Some (Inl ZeroDivisionError,
             \<lparr>cur_tries = 0, cur_delay = 1 / 4,
                events = [Call 0, Time_sleep 1, Call 1, Time_sleep (1 / 2), Call 2]\<rparr>)
   \<and> total_wait [Call 0, Time_sleep 1, Call 1, Time_sleep (1 / 2), Call 2] \<noteq> 1 * (3 - 1)"
  by (simp add: retry_internal_def retry_loop.simps Let_def always_fails_def
      ZeroDivisionError_def logger_warning_def time_sleep_def update_delay_def total_wait_def)

text \<open>
  C8. The wait of the asynchronous loop is \<open>time.sleep\<close> (line 101), as in the
  synchronous one: between the two awaits of the operation the run below has the event
  \<open>Time_sleep 1\<close>, the sleep that holds the thread, and no awaited sleep.
\<close>

theorem async_loop_waits_with_time_sleep:
  "retry_internal_async always_fails Exception 2 1 None 1 (Fixed 0) None no_random []
     = Some (Inl ZeroDivisionError,
             \<lparr>cur_tries = 0, cur_delay = 1, events = [Await 0, Time_sleep 1, Await 1]\<rparr>)"
  by (simp add: retry_internal_async_def retry_internal_def retry_loop.simps Let_def
      always_fails_def ZeroDivisionError_def logger_warning_def time_sleep_def update_delay_def)

text \<open>
  C10. With \<open>max_delay = md\<close> below a (non-negative) initial delay, a first invocation that
  raises a caught exception and attempts left after it, the first wait is the initial
  delay itself, above \<open>md\<close>: the loop goes on from a frame whose events end with that wait
  (and the draw of the jitter, if any), so every run that ends has it as its first wait.
  Only the delay computed after the wait is clamped, and is at most \<open>md\<close>.
\<close>

theorem first_wait_is_not_clamped:
  assumes "max_delay = Some md" and "md < delay" and "0 \<le> delay"
    and "tries \<noteq> 0" and "tries \<noteq> 1" and "f 0 = Inl e" and "exceptions e"
    and "\<And>lg. logger = Some lg \<Longrightarrow> lg e delay = None"
  shows "retry_internal m f exceptions tries delay max_delay backoff jitter logger rnd []
           = retry_loop m f exceptions max_delay backoff jitter logger rnd
               \<lparr>cur_tries = tries - 1,
                  cur_delay = fst (update_delay max_delay backoff jitter rnd delay
                                (invoke m 0 # logged logger e delay @ [Time_sleep delay])),
                  events = snd (update_delay max_delay backoff jitter rnd delay
                                (invoke m 0 # logged logger e delay @ [Time_sleep delay]))\<rparr>
         \<and> waits (snd (update_delay max_delay backoff jitter rnd delay
                         (invoke m 0 # logged logger e delay @ [Time_sleep delay]))) = [delay]
         \<and> fst (update_delay max_delay backoff jitter rnd delay
                  (invoke m 0 # logged logger e delay @ [Time_sleep delay])) \<le> md
         \<and> (\<forall>r st'. retry_internal m f exceptions tries delay max_delay backoff jitter logger
                       rnd [] = Some (r, st')
                     \<longrightarrow> (\<exists>ds. waits (events st') = delay # ds))"
proof -
  let ?st = "\<lparr>cur_tries = tries, cur_delay = delay, events = []\<rparr>"
  let ?st1 = "retried m max_delay backoff jitter logger rnd e ?st"
  have step: "retry_loop m f exceptions max_delay backoff jitter logger rnd ?st
              = retry_loop m f exceptions max_delay backoff jitter logger rnd ?st1"
    using assms by (intro retry_loop_retried) simp_all
  have st1: "?st1 = \<lparr>cur_tries = tries - 1,
                  cur_delay = fst (update_delay max_delay backoff jitter rnd delay
                                (invoke m 0 # logged logger e delay @ [Time_sleep delay])),
                  events = snd (update_delay max_delay backoff jitter rnd delay
                                (invoke m 0 # logged logger e delay @ [Time_sleep delay]))\<rparr>"
    by (simp add: retried_def update_delay_eq)
  have w: "waits (events ?st1) = [delay]"
    by simp
  have le: "cur_delay ?st1 \<le> md"
    using assms(1) by (simp add: retried_def clamp_def)
  have "\<exists>ds. waits (events st') = delay # ds"
    if run: "retry_loop m f exceptions max_delay backoff jitter logger rnd ?st = Some (r, st')"
    for r st'
  proof -
    from run step retry_loop_extends [of m f exceptions max_delay backoff jitter logger rnd
        ?st1 "(r, st')"]
    obtain ys where "events st' = events ?st1 @ ys" by auto
    then have "waits (events st') = waits (events ?st1) @ waits ys" by simp
    with w show ?thesis by simp
  qed
  with step w le show ?thesis
    unfolding st1 retry_internal_def by simp
qed

theorem first_wait_is_not_clamped_witness:
  "retry_internal Sync always_fails Exception 2 5 (Some 1) 3 (Fixed 0) (Some quiet_logger)
     no_random []
   = Some (Inl ZeroDivisionError,
           \<lparr>cur_tries = 0, cur_delay = 1,
              events = [Call 0, Warning ZeroDivisionError 5, Time_sleep 5, Call 1]\<rparr>)"
  using first_wait_is_not_clamped
    [where max_delay = "Some 1" and md = 1 and delay = 5 and tries = 2 and f = always_fails
       and e = ZeroDivisionError and exceptions = Exception and logger = "Some quiet_logger"
       and m = Sync and backoff = 3 and jitter = "Fixed 0" and rnd = no_random]
  by (simp add: always_fails_def ZeroDivisionError_def quiet_logger_def logged_def
      update_delay_def retry_loop_last_try [where e = ZeroDivisionError])

text \<open>
  C2, as the code has it. Nothing is validated: \<open>retry\<close>, \<open>retry_call_sync\<close> and
  \<open>retry_call_async\<close> pass their parameters to the loop as they are
  (\<open>retry_call_sync\<close> and \<open>retry_call_async\<close> are the decorated function of
  \<open>retry(is_async=False)\<close> and \<open>retry(is_async=True)\<close>), and the loop raises nothing of
  its own. With \<open>tries = 0\<close> the call returns \<open>None\<close>, the operation not invoked. Whatever
  the configuration, an exception that a call propagates was raised by the operation, by
  the logger or by \<open>time.sleep\<close>. A negative delay is refused only by \<open>time.sleep\<close>, at
  the first wait, after the operation has been invoked and has raised a caught exception
  with attempts left. (A jitter range with \<open>min > max\<close> is drawn from like any other.)
\<close>

theorem configuration_is_not_validated:
  "retry_call_sync f fargs exceptions tries delay max_delay backoff jitter logger
     = retry False exceptions tries delay max_delay backoff jitter logger f fargs
   \<and> retry_call_async f fargs exceptions tries delay max_delay backoff jitter logger
     = retry True exceptions tries delay max_delay backoff jitter logger f fargs
   \<and> retry is_async exceptions 0 delay max_delay backoff jitter logger f fargs rnd tr
     = Some (Inr None, \<lparr>cur_tries = 0, cur_delay = delay, events = tr\<rparr>)
   \<and> (\<forall>x st'. retry is_async exceptions tries delay max_delay backoff jitter logger f fargs
                 rnd tr = Some (Inl x, st')
               \<longrightarrow> (\<exists>i. f fargs i = Inl x)
                   \<or> (\<exists>lg e d. logger = Some lg \<and> lg e d = Some x)
                   \<or> x = sleep_ValueError)
   \<and> (delay < 0 \<and> tries \<noteq> 0 \<and> tries \<noteq> 1 \<and> f fargs (invocations tr) = Inl e \<and> exceptions e
        \<and> (\<forall>lg. logger = Some lg \<longrightarrow> lg e delay = None)
      \<longrightarrow> retry is_async exceptions tries delay max_delay backoff jitter logger f fargs rnd tr
          = Some (Inl sleep_ValueError,
                  \<lparr>cur_tries = tries - 1, cur_delay = delay,
                     events = tr @ invoke (mode_of is_async) (invocations tr)
                                # logged logger e delay\<rparr>))"
proof (intro conjI allI impI)
  show "retry_call_sync f fargs exceptions tries delay max_delay backoff jitter logger
     = retry False exceptions tries delay max_delay backoff jitter logger f fargs"
    by (simp add: retry_call_sync_def retry_def)
next
  show "retry_call_async f fargs exceptions tries delay max_delay backoff jitter logger
     = retry True exceptions tries delay max_delay backoff jitter logger f fargs"
    by (simp add: retry_call_async_def retry_def)
next
  show "retry is_async exceptions 0 delay max_delay backoff jitter logger f fargs rnd tr
     = Some (Inr None, \<lparr>cur_tries = 0, cur_delay = delay, events = tr\<rparr>)"
    by (simp add: retry_eq retry_internal_def retry_loop_done)
next
  fix x st'
  assume "retry is_async exceptions tries delay max_delay backoff jitter logger f fargs
                 rnd tr = Some (Inl x, st')"
  then have "retry_loop (mode_of is_async) (f fargs) exceptions max_delay backoff jitter logger
               rnd \<lparr>cur_tries = tries, cur_delay = delay, events = tr\<rparr> = Some (Inl x, st')"
    by (simp add: retry_eq retry_internal_def)
  from retry_loop_raises [OF this]
  show "(\<exists>i. f fargs i = Inl x) \<or> (\<exists>lg e d. logger = Some lg \<and> lg e d = Some x)
          \<or> x = sleep_ValueError"
    by simp
next
  assume a: "delay < 0 \<and> tries \<noteq> 0 \<and> tries \<noteq> 1 \<and> f fargs (invocations tr) = Inl e
        \<and> exceptions e \<and> (\<forall>lg. logger = Some lg \<longrightarrow> lg e delay = None)"
  let ?st = "\<lparr>cur_tries = tries, cur_delay = delay, events = tr\<rparr>"
  have "retry_loop (mode_of is_async) (f fargs) exceptions max_delay backoff jitter logger rnd ?st
         = Some (Inl sleep_ValueError,
                 ?st\<lparr>cur_tries := cur_tries ?st - 1,
                    events := events ?st @ invoke (mode_of is_async) (invocations (events ?st))
                                # logged logger e (cur_delay ?st)\<rparr>)"
    using a by (intro retry_loop_sleep_raises) simp_all
  then show "retry is_async exceptions tries delay max_delay backoff jitter logger f fargs rnd tr
          = Some (Inl sleep_ValueError,
                  \<lparr>cur_tries = tries - 1, cur_delay = delay,
                     events = tr @ invoke (mode_of is_async) (invocations tr)
                                # logged logger e delay\<rparr>)"
    by (simp add: retry_eq retry_internal_def)
qed

theorem configuration_is_not_validated_witness:
  "retry True Exception 3 (- 2) None 1 (Range 2 1) (Some quiet_logger) failing_fn () no_random []
     = Some (Inl sleep_ValueError,
             \<lparr>cur_tries = 2, cur_delay = - 2,
                events = [Await 0, Warning ZeroDivisionError (- 2)]\<rparr>)
   \<and> ((\<exists>i. failing_fn () i = Inl sleep_ValueError)
       \<or> (\<exists>lg e d. Some quiet_logger = Some lg \<and> lg e d = Some sleep_ValueError)
       \<or> sleep_ValueError = sleep_ValueError)"
  using configuration_is_not_validated
    [where is_async = True and exceptions = Exception and tries = 3 and delay = "- 2"
       and max_delay = None and backoff = 1 and jitter = "Range 2 1"
       and logger = "Some quiet_logger" and f = failing_fn and fargs = "()"
       and rnd = no_random and tr = "[]" and e = ZeroDivisionError]
  by (simp add: failing_fn_def always_fails_def ZeroDivisionError_def quiet_logger_def
      logged_def mode_of_def)

text \<open>
  Two calls with configurations that the specification calls invalid. \<open>tries = 0\<close>: the
  call returns \<open>None\<close>. A negative delay and a jitter range with \<open>min > max\<close>: the call
  invokes the operation, and the error is the one of \<open>time.sleep\<close>, at the first wait.
\<close>

theorem configuration_error_counterexample:
  "retry_call_sync failing_fn () Exception 0 1 None 1 (Fixed 0) None no_random []
     = Some (Inr None, \<lparr>cur_tries = 0, cur_delay = 1, events = []\<rparr>)
   \<and> retry_call_async failing_fn () Exception 2 (- 1) None 1 (Range 2 1) None no_random []
     = Some (Inl sleep_ValueError, \<lparr>cur_tries = 1, cur_delay = - 1, events = [Await 0]\<rparr>)"
  by (simp add: retry_call_sync_def retry_call_async_def retry_internal_sync_def
      retry_internal_async_def retry_internal_def partial_def retry_loop.simps Let_def
      failing_fn_def always_fails_def ZeroDivisionError_def logger_warning_def time_sleep_def)

end
